theory Spec2Isabelle
  imports Main
begin

section \<open>The Pomodoro timer widget of \<^verbatim>\<open>app/static/js/pomodoro-widget.js\<close>\<close>

text \<open>
  The widget keeps two module-level objects, \<^verbatim>\<open>settings\<close> and \<^verbatim>\<open>state\<close>, a handle
  \<^verbatim>\<open>timerInterval\<close> of the repeating callback, and one record in \<^verbatim>\<open>localStorage\<close>.
  They are modelled as records that every function takes and returns.

  JavaScript numbers are modelled as \<open>int\<close> (exact for the epoch milliseconds,
  minutes and counters that occur here), \<^verbatim>\<open>null\<close> and \<^verbatim>\<open>undefined\<close> as \<open>None\<close>.
  The session type strings \<^verbatim>\<open>'work'\<close>, \<^verbatim>\<open>'short_break'\<close>, \<^verbatim>\<open>'long_break'\<close> are the only
  values the code ever assigns to \<^verbatim>\<open>state.type\<close>; the strings \<^verbatim>\<open>'work'\<close>, \<^verbatim>\<open>'short'\<close>,
  \<^verbatim>\<open>'long'\<close> are the \<^verbatim>\<open>data-type\<close> attributes of the duration buttons.
\<close>

subsection \<open>Data\<close>

datatype session_type = Work | Short_break | Long_break

datatype dur_type = Dur_work | Dur_short | Dur_long

record settings =
  work :: int
  short_break :: int
  long_break :: int
  sessions_until_long :: int

record timer_state =
  isRunning :: bool
  isPaused :: bool
  sessionId :: "string option"
  type :: session_type
  endTime :: "int option"
  duration :: int
  classId :: "string option"
  completedSessions :: int
  pausedRemaining :: "int option"

text \<open>The requests the widget sends to the backend, in the order of the \<^verbatim>\<open>fetch\<close> calls.\<close>

datatype request =
    Get_active
  | Post_start session_type int "string option"
  | Post_complete string
  | Post_cancel string
  | Post_settings settings

text \<open>
  What one call of \<^verbatim>\<open>updateDisplay\<close> writes: the remaining milliseconds from which the
  \<^verbatim>\<open>MM:SS\<close> label and the progress bar are computed, and whether the pause icon is shown.
\<close>

record render =
  remaining :: int
  showPause :: bool

record widget =
  settings :: settings
  state :: timer_state
  timerInterval :: bool
  storage :: "timer_state option"
  requests :: "request list"
  renders :: "render list"

text \<open>
  The JSON bodies of the two responses the widget reads. A field that is missing or
  \<^verbatim>\<open>null\<close> is \<open>None\<close>. \<open>Failed\<close> stands for a \<^verbatim>\<open>fetch\<close> that throws, a response
  that is not \<^verbatim>\<open>ok\<close> (for \<^verbatim>\<open>/pomodoro/active\<close>) or a body that is not JSON.
\<close>

record data_settings =
  pomodoro_work_duration :: "int option"
  pomodoro_short_break :: "int option"
  pomodoro_long_break :: "int option"
  pomodoro_sessions_until_long :: "int option"

record active_data =
  success :: bool
  data_settings :: data_settings
  today_sessions :: "int option"

record start_data =
  start_success :: bool
  session_id :: "string option"

datatype 'a reply = Failed | Reply 'a

text \<open>
  An \<^verbatim>\<open>async\<close> function runs synchronously up to its first \<^verbatim>\<open>await\<close> and returns to
  its caller there; the rest of its body runs later, when the awaited request has
  settled. \<open>Suspended\<close> is the widget at the \<^verbatim>\<open>await\<close>, \<open>Finished\<close> the widget when
  the body ran to its end without reaching one.
\<close>

datatype outcome = Finished widget | Suspended widget

fun widget_of :: "outcome \<Rightarrow> widget" where
  "widget_of (Finished w) = w"
| "widget_of (Suspended w) = w"

subsection \<open>JavaScript's coercions\<close>

definition truthy :: "int option \<Rightarrow> bool" where
  "truthy v = (case v of None \<Rightarrow> False | Some n \<Rightarrow> n \<noteq> 0)"

definition truthy_str :: "string option \<Rightarrow> bool" where
  "truthy_str v = (case v of None \<Rightarrow> False | Some s \<Rightarrow> s \<noteq> [])"

definition num :: "int option \<Rightarrow> int" where
  "num v = (case v of None \<Rightarrow> 0 | Some n \<Rightarrow> n)"

definition or_default :: "int option \<Rightarrow> int \<Rightarrow> int" where
  "or_default v d = (if truthy v then num v else d)"

subsection \<open>The module's initial values\<close>

definition default_settings :: settings where
  "default_settings =
     \<lparr>work = 25, short_break = 5, long_break = 15, sessions_until_long = 4\<rparr>"

definition default_state :: timer_state where
  "default_state =
     \<lparr>isRunning = False, isPaused = False, sessionId = None, type = Work,
      endTime = None, duration = 25, classId = None, completedSessions = 0,
      pausedRemaining = None\<rparr>"

text \<open>The script as it is evaluated on a page whose \<^verbatim>\<open>localStorage\<close> holds \<open>sto\<close>.\<close>

definition page :: "timer_state option \<Rightarrow> widget" where
  "page sto =
     \<lparr>settings = default_settings, state = default_state, timerInterval = False,
      storage = sto, requests = [], renders = []\<rparr>"

subsection \<open>The functions\<close>

definition saveState :: "widget \<Rightarrow> widget" where
  "saveState w = w\<lparr>storage := Some (state w)\<rparr>"

definition remaining_ms :: "int \<Rightarrow> timer_state \<Rightarrow> int" where
  "remaining_ms now st =
     (if isRunning st \<and> truthy (endTime st) then max 0 (num (endTime st) - now)
      else if isPaused st \<and> truthy (pausedRemaining st) then num (pausedRemaining st)
      else duration st * 60 * 1000)"

definition updateDisplay :: "int \<Rightarrow> widget \<Rightarrow> widget" where
  "updateDisplay now w =
     w\<lparr>renders := renders w @
        [\<lparr>remaining = remaining_ms now (state w), showPause = isRunning (state w)\<rparr>]\<rparr>"

definition type_duration :: "settings \<Rightarrow> session_type \<Rightarrow> int" where
  "type_duration s t =
     (if t = Work then work s else if t = Short_break then short_break s
      else long_break s)"

definition setSessionType :: "int \<Rightarrow> session_type \<Rightarrow> widget \<Rightarrow> widget" where
  "setSessionType now t w =
     updateDisplay now (saveState
       (w\<lparr>state := (state w)\<lparr>type := t, duration := type_duration (settings w) t,
            endTime := None, isRunning := False, isPaused := False\<rparr>\<rparr>))"

definition startInterval :: "widget \<Rightarrow> widget" where
  "startInterval w = w\<lparr>timerInterval := True\<rparr>"

definition clearInterval :: "widget \<Rightarrow> widget" where
  "clearInterval w = w\<lparr>timerInterval := False\<rparr>"

definition send :: "request \<Rightarrow> widget \<Rightarrow> widget" where
  "send r w = w\<lparr>requests := requests w @ [r]\<rparr>"

text \<open>
  \<^verbatim>\<open>toggleTimer\<close>. The pause branch has no \<^verbatim>\<open>await\<close>. The start branch awaits the
  \<^verbatim>\<open>/pomodoro/start\<close> request when no session id is held; \<open>toggleTimer_resume\<close> is the
  rest of the body, run with the reply.
\<close>

definition toggleTimer_finish :: "int \<Rightarrow> widget \<Rightarrow> widget" where
  "toggleTimer_finish now w = updateDisplay now (saveState w)"

definition toggleTimer_resume :: "int \<Rightarrow> start_data reply \<Rightarrow> widget \<Rightarrow> widget" where
  "toggleTimer_resume now r w =
     toggleTimer_finish now (startInterval
       (case r of
          Reply d \<Rightarrow>
            if start_success d then w\<lparr>state := (state w)\<lparr>sessionId := session_id d\<rparr>\<rparr>
            else w
        | Failed \<Rightarrow> w))"

definition toggleTimer_begin :: "int \<Rightarrow> widget \<Rightarrow> outcome" where
  "toggleTimer_begin now w =
     (let st = state w in
      if isRunning st then
        Finished (toggleTimer_finish now
          ((clearInterval w)\<lparr>state := st\<lparr>isPaused := True, isRunning := False,
              pausedRemaining := Some (max 0 (num (endTime st) - now)),
              endTime := None\<rparr>\<rparr>))
      else
        let st1 =
              (if isPaused st \<and> truthy (pausedRemaining st)
               then st\<lparr>endTime := Some (now + num (pausedRemaining st)),
                       pausedRemaining := None\<rparr>
               else st\<lparr>endTime := Some (now + duration st * 60 * 1000)\<rparr>);
            st2 = st1\<lparr>isRunning := True, isPaused := False\<rparr>;
            w2 = w\<lparr>state := st2\<rparr>
        in if \<not> truthy_str (sessionId st2)
           then Suspended (send (Post_start (type st2) (duration st2) (classId st2)) w2)
           else Finished (toggleTimer_finish now (startInterval w2)))"

definition toggleTimer :: "int \<Rightarrow> int \<Rightarrow> start_data reply \<Rightarrow> widget \<Rightarrow> widget" where
  "toggleTimer now now' r w =
     (case toggleTimer_begin now w of
        Finished w' \<Rightarrow> w'
      | Suspended w' \<Rightarrow> toggleTimer_resume now' r w')"

text \<open>
  \<^verbatim>\<open>completeSession\<close>. The sound and the desktop notification change nothing of the
  widget and are left out. With a session id the body awaits the
  \<^verbatim>\<open>/pomodoro/complete\<close> request; \<open>completeSession_resume\<close> is the body after it.
\<close>

definition completeSession_resume :: "int \<Rightarrow> widget \<Rightarrow> widget" where
  "completeSession_resume now w =
     (let w1 =
        (if type (state w) = Work then
           let w' = w\<lparr>state := (state w)\<lparr>completedSessions :=
                                  completedSessions (state w) + 1\<rparr>\<rparr>
           in if completedSessions (state w') \<ge> sessions_until_long (settings w')
              then setSessionType now Long_break
                     (w'\<lparr>state := (state w')\<lparr>completedSessions := 0\<rparr>\<rparr>)
              else setSessionType now Short_break w'
         else setSessionType now Work w)
      in updateDisplay now (saveState (w1\<lparr>state := (state w1)\<lparr>sessionId := None\<rparr>\<rparr>)))"

definition completeSession_begin :: "int \<Rightarrow> widget \<Rightarrow> outcome" where
  "completeSession_begin now w =
     (let w1 = w\<lparr>state := (state w)\<lparr>isRunning := False, endTime := None\<rparr>\<rparr>
      in case sessionId (state w1) of
           Some sid \<Rightarrow>
             if sid \<noteq> [] then Suspended (send (Post_complete sid) w1)
             else Finished (completeSession_resume now w1)
         | None \<Rightarrow> Finished (completeSession_resume now w1))"

definition completeSession :: "int \<Rightarrow> int \<Rightarrow> widget \<Rightarrow> widget" where
  "completeSession now now' w =
     (case completeSession_begin now w of
        Finished w' \<Rightarrow> w'
      | Suspended w' \<Rightarrow> completeSession_resume now' w')"

text \<open>
  The callback that \<^verbatim>\<open>startInterval\<close> registers. It calls \<^verbatim>\<open>completeSession()\<close> without
  awaiting the promise, so \<^verbatim>\<open>updateDisplay()\<close> runs as soon as \<^verbatim>\<open>completeSession\<close>
  returns, finished or suspended.
\<close>

definition tick :: "int \<Rightarrow> widget \<Rightarrow> outcome" where
  "tick now w =
     (let remaining = num (endTime (state w)) - now in
      if remaining \<le> 0 then
        (case completeSession_begin now (clearInterval w) of
           Finished w' \<Rightarrow> Finished (updateDisplay now w')
         | Suspended w' \<Rightarrow> Suspended (updateDisplay now w'))
      else Finished (updateDisplay now w))"

text \<open>\<^verbatim>\<open>resetTimer\<close> and \<^verbatim>\<open>skipSession\<close> await the cancel request first, when an id is held.\<close>

definition cancel_begin :: "widget \<Rightarrow> widget option" where
  "cancel_begin w =
     (case sessionId (state w) of
        Some sid \<Rightarrow> if sid \<noteq> [] then Some (send (Post_cancel sid) w) else None
      | None \<Rightarrow> None)"

definition resetTimer_resume :: "int \<Rightarrow> widget \<Rightarrow> widget" where
  "resetTimer_resume now w =
     updateDisplay now (saveState
       ((clearInterval w)\<lparr>state := (state w)\<lparr>isRunning := False, isPaused := False,
           endTime := None, sessionId := None, pausedRemaining := None\<rparr>\<rparr>))"

definition resetTimer_begin :: "int \<Rightarrow> widget \<Rightarrow> outcome" where
  "resetTimer_begin now w =
     (case cancel_begin w of
        Some w' \<Rightarrow> Suspended w'
      | None \<Rightarrow> Finished (resetTimer_resume now w))"

definition resetTimer :: "int \<Rightarrow> int \<Rightarrow> widget \<Rightarrow> widget" where
  "resetTimer now now' w =
     (case resetTimer_begin now w of
        Finished w' \<Rightarrow> w'
      | Suspended w' \<Rightarrow> resetTimer_resume now' w')"

definition skipSession_resume :: "int \<Rightarrow> widget \<Rightarrow> widget" where
  "skipSession_resume now w =
     (let w1 = (clearInterval w)\<lparr>state := (state w)\<lparr>isRunning := False,
                  endTime := None, sessionId := None\<rparr>\<rparr>
      in saveState
        (if type (state w1) = Work then
           if completedSessions (state w1) \<ge> sessions_until_long (settings w1) - 1
           then setSessionType now Long_break w1
           else setSessionType now Short_break w1
         else setSessionType now Work w1))"

definition skipSession_begin :: "int \<Rightarrow> widget \<Rightarrow> outcome" where
  "skipSession_begin now w =
     (case cancel_begin w of
        Some w' \<Rightarrow> Suspended w'
      | None \<Rightarrow> Finished (skipSession_resume now w))"

definition skipSession :: "int \<Rightarrow> int \<Rightarrow> widget \<Rightarrow> widget" where
  "skipSession now now' w =
     (case skipSession_begin now w of
        Finished w' \<Rightarrow> w'
      | Suspended w' \<Rightarrow> skipSession_resume now' w')"

text \<open>
  \<^verbatim>\<open>adjustDuration\<close>. The request of \<^verbatim>\<open>saveSettingsToServer\<close> is sent and nothing of the
  widget depends on its reply.
\<close>

definition adjustDuration :: "int \<Rightarrow> dur_type \<Rightarrow> int \<Rightarrow> widget \<Rightarrow> widget" where
  "adjustDuration now ty direction w =
     (let mn = 1;
          mx = (if ty = Dur_work then 60 else 30);
          s = settings w;
          s' = (if ty = Dur_work
                  then s\<lparr>work := max mn (min mx (work s + direction))\<rparr>
                else if ty = Dur_short
                  then s\<lparr>short_break := max mn (min mx (short_break s + direction))\<rparr>
                else s\<lparr>long_break := max mn (min mx (long_break s + direction))\<rparr>);
          w1 = w\<lparr>settings := s'\<rparr>;
          w2 = (if \<not> isRunning (state w1) then setSessionType now (type (state w1)) w1
                else w1)
      in send (Post_settings (settings w2)) w2)"

text \<open>
  \<^verbatim>\<open>fetchSettings\<close> awaits its request at once; \<open>fetchSettings_resume\<close> is the body
  after the reply. The class list only fills the drop-down and is left out.
\<close>

definition fetchSettings_begin :: "widget \<Rightarrow> widget" where
  "fetchSettings_begin w = send Get_active w"

definition fetchSettings_resume :: "active_data reply \<Rightarrow> widget \<Rightarrow> widget" where
  "fetchSettings_resume r w =
     (case r of
        Failed \<Rightarrow> w
      | Reply d \<Rightarrow>
          if success d then
            let ds = data_settings d;
                s = \<lparr>work = or_default (pomodoro_work_duration ds) 25,
                     short_break = or_default (pomodoro_short_break ds) 5,
                     long_break = or_default (pomodoro_long_break ds) 15,
                     sessions_until_long =
                       or_default (pomodoro_sessions_until_long ds) 4\<rparr>;
                st = (state w)\<lparr>completedSessions := or_default (today_sessions d) 0\<rparr>;
                st' = (if \<not> isRunning st \<and> \<not> truthy (endTime st)
                       then st\<lparr>duration := work s\<rparr> else st)
            in w\<lparr>settings := s, state := st'\<rparr>
          else w)"

text \<open>
  \<^verbatim>\<open>loadState\<close>. \<open>storage w\<close> is the parsed record, \<open>None\<close> when the key is absent.
  It is called once, from \<^verbatim>\<open>init\<close>, on the module's initial state, so that
  \<^verbatim>\<open>Object.assign\<close> gives the stored record.
\<close>

definition loadState :: "int \<Rightarrow> widget \<Rightarrow> widget" where
  "loadState now w =
     (case storage w of
        None \<Rightarrow> w
      | Some parsed \<Rightarrow>
          let st = parsed;
              st' = (if isRunning st \<and> truthy (endTime st) \<and> num (endTime st) < now
                     then st\<lparr>isRunning := False, endTime := None, sessionId := None\<rparr>
                     else st)
          in setSessionType now (type st') (w\<lparr>state := st'\<rparr>))"

text \<open>
  \<^verbatim>\<open>init\<close> awaits \<^verbatim>\<open>fetchSettings()\<close>: \<open>init_begin\<close> runs up to the request,
  \<open>init_resume\<close> from the reply to the end.
\<close>

definition init_begin :: "int \<Rightarrow> widget \<Rightarrow> widget" where
  "init_begin now w = fetchSettings_begin (loadState now w)"

definition init_resume :: "int \<Rightarrow> active_data reply \<Rightarrow> widget \<Rightarrow> widget" where
  "init_resume now r w =
     (let w1 = updateDisplay now (fetchSettings_resume r w)
      in if isRunning (state w1) \<and> truthy (endTime (state w1)) then startInterval w1
         else w1)"

definition init :: "int \<Rightarrow> int \<Rightarrow> active_data reply \<Rightarrow> widget \<Rightarrow> widget" where
  "init now now' r w = init_resume now' r (init_begin now w)"

subsection \<open>Sequences of operations\<close>

text \<open>
  The widget runs on one thread: what happens is a sequence of synchronous runs, each
  started by a page load, a click, the interval callback or the settling of an awaited
  request. An event names one such run and carries the value of \<^verbatim>\<open>Date.now()\<close> during
  it and, for a settled request, the reply. The runs after an \<^verbatim>\<open>await\<close> are events of
  their own, so that anything may happen between a request and its reply.
\<close>

datatype event =
    Page_load int
  | Init_resumed int "active_data reply"
  | Select_type int session_type
  | Select_class "string option"
  | Toggle int
  | Toggle_resumed int "start_data reply"
  | Tick int
  | Complete_resumed int
  | Reset int
  | Reset_resumed int
  | Skip int
  | Skip_resumed int
  | Adjust int dur_type int

fun step :: "event \<Rightarrow> widget \<Rightarrow> widget" where
  "step (Page_load now) w = init_begin now (page (storage w))"
| "step (Init_resumed now r) w = init_resume now r w"
| "step (Select_type now t) w =
     (if \<not> isRunning (state w) then setSessionType now t w else w)"
| "step (Select_class c) w = saveState (w\<lparr>state := (state w)\<lparr>classId := c\<rparr>\<rparr>)"
| "step (Toggle now) w = widget_of (toggleTimer_begin now w)"
| "step (Toggle_resumed now r) w = toggleTimer_resume now r w"
| "step (Tick now) w = (if timerInterval w then widget_of (tick now w) else w)"
| "step (Complete_resumed now) w = completeSession_resume now w"
| "step (Reset now) w = widget_of (resetTimer_begin now w)"
| "step (Reset_resumed now) w = resetTimer_resume now w"
| "step (Skip now) w = widget_of (skipSession_begin now w)"
| "step (Skip_resumed now) w = skipSession_resume now w"
| "step (Adjust now ty direction) w = adjustDuration now ty direction w"

fun run :: "widget \<Rightarrow> event list \<Rightarrow> widget" where
  "run w [] = w"
| "run w (e # es) = run (step e w) es"

text \<open>A sequence of \<^verbatim>\<open>adjustDuration\<close> calls, each with its time, button type and direction.\<close>

fun adjustments :: "(int \<times> dur_type \<times> int) list \<Rightarrow> widget \<Rightarrow> widget" where
  "adjustments [] w = w"
| "adjustments ((now, ty, direction) # cs) w =
     adjustments cs (adjustDuration now ty direction w)"

text \<open>The setting that a duration button adjusts, and the \<^verbatim>\<open>max\<close> of \<^verbatim>\<open>adjustDuration\<close>.\<close>

definition adjusted :: "dur_type \<Rightarrow> settings \<Rightarrow> int" where
  "adjusted ty s =
     (case ty of Dur_work \<Rightarrow> work s | Dur_short \<Rightarrow> short_break s
      | Dur_long \<Rightarrow> long_break s)"

definition upper :: "dur_type \<Rightarrow> int" where
  "upper ty = (if ty = Dur_work then 60 else 30)"

subsection \<open>Invariants\<close>

text \<open>
  A state is consistent when it has a deadline exactly while it is running, and a
  remainder whenever it is paused. The stored record is part of the invariant, since a
  page load reads it back.
\<close>

definition consistent :: "timer_state \<Rightarrow> bool" where
  "consistent st \<longleftrightarrow>
     (endTime st \<noteq> None \<longleftrightarrow> isRunning st)
     \<and> (isPaused st \<longrightarrow> pausedRemaining st \<noteq> None)"

definition all_consistent :: "widget \<Rightarrow> bool" where
  "all_consistent w \<longleftrightarrow>
     consistent (state w)
     \<and> (case storage w of None \<Rightarrow> True | Some p \<Rightarrow> consistent p)"

text \<open>
  A reply of \<^verbatim>\<open>/pomodoro/active\<close> is within the cycle when, as \<^verbatim>\<open>fetchSettings\<close> reads it,
  its \<^verbatim>\<open>today_sessions\<close> is at least 0 and below its \<^verbatim>\<open>sessions_until_long\<close>, and its
  \<^verbatim>\<open>sessions_until_long\<close> is at most 4, the value that \<^verbatim>\<open>settings\<close> has on every page
  load until the reply arrives. Replies that failed or have no \<^verbatim>\<open>success\<close> are not
  applied; every other event is unrestricted.
\<close>

fun within_cycle :: "event \<Rightarrow> bool" where
  "within_cycle (Init_resumed now (Reply d)) =
     (if success d then
        0 \<le> or_default (today_sessions d) 0
        \<and> or_default (today_sessions d) 0
            < or_default (pomodoro_sessions_until_long (data_settings d)) 4
        \<and> or_default (pomodoro_sessions_until_long (data_settings d)) 4 \<le> 4
      else True)"
| "within_cycle e = True"

definition in_cycle :: "int \<Rightarrow> timer_state \<Rightarrow> bool" where
  "in_cycle n st \<longleftrightarrow> 0 \<le> completedSessions st \<and> completedSessions st < n"

definition all_in_cycle :: "widget \<Rightarrow> bool" where
  "all_in_cycle w \<longleftrightarrow>
     sessions_until_long (settings w) \<le> 4
     \<and> in_cycle (sessions_until_long (settings w)) (state w)
     \<and> (case storage w of None \<Rightarrow> True | Some p \<Rightarrow> in_cycle 4 p)"

section \<open>Properties\<close>

lemmas widget_defs = saveState_def updateDisplay_def setSessionType_def startInterval_def
  clearInterval_def send_def type_duration_def

lemmas coercion_defs = truthy_def truthy_str_def num_def or_default_def

lemmas eval_defs = init_begin_def init_resume_def loadState_def
  fetchSettings_begin_def fetchSettings_resume_def page_def default_state_def
  default_settings_def toggleTimer_begin_def toggleTimer_resume_def toggleTimer_finish_def
  remaining_ms_def widget_defs coercion_defs Let_def

subsection \<open>Rehydration at page load\<close>

text \<open>
  Whatever record is stored, the state is idle once \<^verbatim>\<open>init\<close> has run: \<^verbatim>\<open>loadState\<close> passes
  every loaded state through \<^verbatim>\<open>setSessionType\<close>. The session id is dropped only by the
  staleness check.
\<close>

lemma init_leaves_idle:
  "\<not> isRunning (state (init now now' r (page (Some p))))
   \<and> endTime (state (init now now' r (page (Some p)))) = None
   \<and> \<not> timerInterval (init now now' r (page (Some p)))
   \<and> sessionId (state (init now now' r (page (Some p)))) =
       (if isRunning p \<and> truthy (endTime p) \<and> num (endTime p) < now then None
        else sessionId p)"
  by (cases r)
    (simp_all add: init_def init_begin_def init_resume_def loadState_def
      fetchSettings_begin_def fetchSettings_resume_def page_def widget_defs truthy_def
      Let_def)

text \<open>
  C1. A stored state that is running with a deadline still in the future is meant to
  be running, with the same deadline and session id, after \<^verbatim>\<open>init\<close> has loaded it.
  \<^verbatim>\<open>loadState\<close> ends with \<^verbatim>\<open>setSessionType(state.type)\<close>, which clears \<^verbatim>\<open>endTime\<close> and
  \<^verbatim>\<open>isRunning\<close> whatever was loaded. At 1000 ms, with a stored deadline of 900000 ms
  and session \<^verbatim>\<open>s1\<close>, the widget after \<^verbatim>\<open>init\<close> is idle, has no deadline and no interval,
  and still holds the session id.
\<close>

theorem running_timer_lost_on_reload:
  "isRunning (state (init 1000 2000 Failed
      (page (Some (default_state\<lparr>isRunning := True, endTime := Some 900000,
                     sessionId := Some ''s1''\<rparr>))))) = False
   \<and> endTime (state (init 1000 2000 Failed
      (page (Some (default_state\<lparr>isRunning := True, endTime := Some 900000,
                     sessionId := Some ''s1''\<rparr>))))) = None
   \<and> sessionId (state (init 1000 2000 Failed
      (page (Some (default_state\<lparr>isRunning := True, endTime := Some 900000,
                     sessionId := Some ''s1''\<rparr>))))) = Some ''s1''
   \<and> timerInterval (init 1000 2000 Failed
      (page (Some (default_state\<lparr>isRunning := True, endTime := Some 900000,
                     sessionId := Some ''s1''\<rparr>)))) = False"
  by (simp add: init_def init_begin_def init_resume_def loadState_def
      fetchSettings_begin_def fetchSettings_resume_def page_def default_state_def
      default_settings_def widget_defs coercion_defs Let_def)

lemma state_loadState_stale:
  assumes "isRunning p" "endTime p = Some e" "e \<noteq> 0" "e < now"
  shows "state (loadState now (page (Some p))) =
           p\<lparr>isRunning := False, endTime := None, sessionId := None,
             duration := type_duration default_settings (type p), isPaused := False\<rparr>"
  using assms
  by (simp add: loadState_def page_def widget_defs coercion_defs Let_def)

lemma renders_loadState_stale:
  assumes "isRunning p" "endTime p = Some e" "e \<noteq> 0" "e < now"
  shows "renders (loadState now (page (Some p))) =
           [\<lparr>remaining = type_duration default_settings (type p) * 60 * 1000,
             showPause = False\<rparr>]"
  using assms
  by (simp add: loadState_def page_def remaining_ms_def widget_defs coercion_defs Let_def)

lemma type_duration_default_nonneg: "0 \<le> type_duration default_settings t"
  by (simp add: type_duration_def default_settings_def)

text \<open>
  C4. When the stored state is running and its deadline is before the time of the load,
  the widget after \<^verbatim>\<open>init\<close> is idle: not running, not paused, without a deadline, without
  a session id and without an interval, and every render made on the way shows a
  remaining time that is not negative. The deadline is one that the widget stored,
  \<^verbatim>\<open>Date.now()\<close> plus a remaining time, hence not 0 (which JavaScript takes for an absent
  value); the work duration of a successful reply of the server is not negative.
\<close>

theorem stale_timer_rehydrates_idle:
  assumes "isRunning p" and "endTime p = Some e" and "e \<noteq> 0" and "e < now"
    and "0 \<le> (case r of Failed \<Rightarrow> 0
               | Reply d \<Rightarrow>
                   if success d
                   then or_default (pomodoro_work_duration (data_settings d)) 25 else 0)"
  shows "\<not> isRunning (state (init now now' r (page (Some p))))
    \<and> \<not> isPaused (state (init now now' r (page (Some p))))
    \<and> endTime (state (init now now' r (page (Some p)))) = None
    \<and> sessionId (state (init now now' r (page (Some p)))) = None
    \<and> \<not> timerInterval (init now now' r (page (Some p)))
    \<and> (\<forall>x \<in> set (renders (init now now' r (page (Some p)))). 0 \<le> remaining x)"
proof -
  let ?w = "loadState now (page (Some p))"
  note st = state_loadState_stale [OF assms(1-4)]
  note rn = renders_loadState_stale [OF assms(1-4)]
  have ti: "\<not> timerInterval ?w"
    by (simp add: loadState_def page_def widget_defs Let_def)
  have nn: "0 \<le> type_duration default_settings (type p)"
    by (rule type_duration_default_nonneg)
  show ?thesis
  proof (cases r)
    case Failed
    then show ?thesis using st rn ti nn
      by (simp add: init_def init_begin_def init_resume_def fetchSettings_begin_def
          fetchSettings_resume_def updateDisplay_def send_def startInterval_def
          remaining_ms_def coercion_defs Let_def)
  next
    case (Reply d)
    with assms(5)
    have "success d \<longrightarrow> 0 \<le> or_default (pomodoro_work_duration (data_settings d)) 25"
      by (cases "success d") simp_all
    then show ?thesis using Reply st rn ti nn
      by (simp add: init_def init_begin_def init_resume_def fetchSettings_begin_def
          fetchSettings_resume_def updateDisplay_def send_def startInterval_def
          remaining_ms_def truthy_def num_def Let_def)
  qed
qed

theorem stale_timer_rehydrates_idle_witness:
  "isRunning (default_state\<lparr>isRunning := True, endTime := Some 500, sessionId := Some ''s1''\<rparr>)
   \<and> endTime (default_state\<lparr>isRunning := True, endTime := Some 500, sessionId := Some ''s1''\<rparr>)
       = Some 500
   \<and> (500::int) \<noteq> 0 \<and> (500::int) < 1000
   \<and> 0 \<le> (case Reply \<lparr>success = True,
              data_settings = \<lparr>pomodoro_work_duration = Some 30,
                pomodoro_short_break = None, pomodoro_long_break = None,
                pomodoro_sessions_until_long = None\<rparr>,
              today_sessions = Some 2\<rparr> of
          Failed \<Rightarrow> 0
        | Reply d \<Rightarrow>
            if success d
            then or_default (pomodoro_work_duration (data_settings d)) 25 else 0)
   \<and> \<not> isRunning (state (init 1000 2000
        (Reply \<lparr>success = True,
              data_settings = \<lparr>pomodoro_work_duration = Some 30,
                pomodoro_short_break = None, pomodoro_long_break = None,
                pomodoro_sessions_until_long = None\<rparr>,
              today_sessions = Some 2\<rparr>)
        (page (Some
        (default_state\<lparr>isRunning := True, endTime := Some 500, sessionId := Some ''s1''\<rparr>)))))
   \<and> sessionId (state (init 1000 2000
        (Reply \<lparr>success = True,
              data_settings = \<lparr>pomodoro_work_duration = Some 30,
                pomodoro_short_break = None, pomodoro_long_break = None,
                pomodoro_sessions_until_long = None\<rparr>,
              today_sessions = Some 2\<rparr>)
        (page (Some
        (default_state\<lparr>isRunning := True, endTime := Some 500, sessionId := Some ''s1''\<rparr>)))))
       = None
   \<and> map remaining (renders (init 1000 2000
        (Reply \<lparr>success = True,
              data_settings = \<lparr>pomodoro_work_duration = Some 30,
                pomodoro_short_break = None, pomodoro_long_break = None,
                pomodoro_sessions_until_long = None\<rparr>,
              today_sessions = Some 2\<rparr>)
        (page (Some
        (default_state\<lparr>isRunning := True, endTime := Some 500, sessionId := Some ''s1''\<rparr>)))))
       = [1500000, 1800000]"
  using stale_timer_rehydrates_idle [of
      "default_state\<lparr>isRunning := True, endTime := Some 500, sessionId := Some ''s1''\<rparr>"
      500 1000
      "Reply \<lparr>success = True,
              data_settings = \<lparr>pomodoro_work_duration = Some 30,
                pomodoro_short_break = None, pomodoro_long_break = None,
                pomodoro_sessions_until_long = None\<rparr>,
              today_sessions = Some 2\<rparr>" 2000]
  by (simp add: eval_defs init_def)

subsection \<open>Completing and skipping a session\<close>

text \<open>
  C2. \<^verbatim>\<open>completeSession\<close> on a work session whose counter is
  \<^verbatim>\<open>sessions_until_long - 1\<close> sets the counter to 0 and selects the long break; with a
  smaller counter it adds exactly 1 and selects the short break; on a break it selects
  work. The comparison reads the counter after the increment.
\<close>

theorem complete_rollover:
  "(type (state w) = Work \<and>
      completedSessions (state w) = sessions_until_long (settings w) - 1 \<longrightarrow>
        completedSessions (state (completeSession now now' w)) = 0 \<and>
        type (state (completeSession now now' w)) = Long_break)
   \<and> (type (state w) = Work \<and>
      completedSessions (state w) < sessions_until_long (settings w) - 1 \<longrightarrow>
        completedSessions (state (completeSession now now' w)) =
          completedSessions (state w) + 1 \<and>
        type (state (completeSession now now' w)) = Short_break)
   \<and> (type (state w) \<noteq> Work \<longrightarrow>
        type (state (completeSession now now' w)) = Work)"
  by (cases "sessionId (state w)")
    (simp_all add: completeSession_def completeSession_begin_def completeSession_resume_def
      widget_defs Let_def)

theorem complete_rollover_witness:
  "type (state ((page None)\<lparr>state := default_state\<lparr>completedSessions := 3\<rparr>\<rparr>)) = Work
   \<and> completedSessions (state ((page None)\<lparr>state := default_state\<lparr>completedSessions := 3\<rparr>\<rparr>))
       = sessions_until_long
           (settings ((page None)\<lparr>state := default_state\<lparr>completedSessions := 3\<rparr>\<rparr>)) - 1
   \<and> completedSessions (state (completeSession 10 20
        ((page None)\<lparr>state := default_state\<lparr>completedSessions := 3\<rparr>\<rparr>))) = 0
   \<and> type (state (completeSession 10 20
        ((page None)\<lparr>state := default_state\<lparr>completedSessions := 3\<rparr>\<rparr>))) = Long_break
   \<and> completedSessions (state ((page None)\<lparr>state := default_state\<lparr>completedSessions := 1,
        sessionId := Some ''s1''\<rparr>\<rparr>))
       < sessions_until_long (settings ((page None)\<lparr>state :=
           default_state\<lparr>completedSessions := 1, sessionId := Some ''s1''\<rparr>\<rparr>)) - 1
   \<and> completedSessions (state (completeSession 10 20
        ((page None)\<lparr>state := default_state\<lparr>completedSessions := 1,
           sessionId := Some ''s1''\<rparr>\<rparr>))) = 2
   \<and> type (state (completeSession 10 20
        ((page None)\<lparr>state := default_state\<lparr>completedSessions := 1,
           sessionId := Some ''s1''\<rparr>\<rparr>))) = Short_break
   \<and> type (state ((page None)\<lparr>state := default_state\<lparr>type := Long_break\<rparr>\<rparr>)) \<noteq> Work
   \<and> type (state (completeSession 10 20
        ((page None)\<lparr>state := default_state\<lparr>type := Long_break\<rparr>\<rparr>))) = Work"
  using complete_rollover [of
      "(page None)\<lparr>state := default_state\<lparr>completedSessions := 3\<rparr>\<rparr>" 10 20]
    complete_rollover [of
      "(page None)\<lparr>state := default_state\<lparr>completedSessions := 1,
         sessionId := Some ''s1''\<rparr>\<rparr>" 10 20]
    complete_rollover [of
      "(page None)\<lparr>state := default_state\<lparr>type := Long_break\<rparr>\<rparr>" 10 20]
  by (simp add: page_def default_state_def default_settings_def)

text \<open>
  C3. From any state, \<^verbatim>\<open>skipSession\<close> selects the session type that
  \<^verbatim>\<open>completeSession\<close> selects from that state, and leaves the counter as it was.
\<close>

theorem skip_advances_like_complete:
  "type (state (skipSession now now' w)) = type (state (completeSession t t' w))
   \<and> completedSessions (state (skipSession now now' w)) = completedSessions (state w)"
  by (cases "sessionId (state w)")
    (simp_all add: completeSession_def completeSession_begin_def completeSession_resume_def
      skipSession_def skipSession_begin_def skipSession_resume_def cancel_begin_def
      widget_defs Let_def)

subsection \<open>The interval callback\<close>

text \<open>
  C5. A tick that finds no time left stops the interval and clears \<^verbatim>\<open>isRunning\<close> and
  \<^verbatim>\<open>endTime\<close> before it renders: every render that the tick adds shows the play icon
  and the remaining time of the state the tick leaves, never the expired deadline.
  When no session id is held, the session type is also rotated before the renders,
  which are three and show the full duration of the new type, and no request is sent.
  When a session id is held, \<^verbatim>\<open>completeSession\<close> sends the complete request and stops at
  its \<^verbatim>\<open>await\<close>: the tick adds one render, of a state whose type and session id are as
  before, and these are rotated and cleared by the rest of \<^verbatim>\<open>completeSession\<close>, which
  runs once the request has settled.
\<close>

theorem expiry_tick_effects:
  assumes "num (endTime (state w)) - now \<le> 0"
  shows "(\<not> truthy_str (sessionId (state w)) \<longrightarrow>
      tick now w = Finished (widget_of (tick now w))
      \<and> \<not> timerInterval (widget_of (tick now w))
      \<and> \<not> isRunning (state (widget_of (tick now w)))
      \<and> endTime (state (widget_of (tick now w))) = None
      \<and> sessionId (state (widget_of (tick now w))) = None
      \<and> type (state (widget_of (tick now w))) =
          (if type (state w) = Work then
             if completedSessions (state w) + 1 \<ge> sessions_until_long (settings w)
             then Long_break else Short_break
           else Work)
      \<and> requests (widget_of (tick now w)) = requests w
      \<and> renders (widget_of (tick now w)) =
          renders w @ replicate 3
            \<lparr>remaining = remaining_ms now (state (widget_of (tick now w))),
             showPause = False\<rparr>
      \<and> remaining_ms now (state (widget_of (tick now w))) =
          type_duration (settings w)
            (if type (state w) = Work then
             if completedSessions (state w) + 1 \<ge> sessions_until_long (settings w)
             then Long_break else Short_break
           else Work) * 60 * 1000)
   \<and> (truthy_str (sessionId (state w)) \<longrightarrow>
      tick now w = Suspended (widget_of (tick now w))
      \<and> \<not> timerInterval (widget_of (tick now w))
      \<and> \<not> isRunning (state (widget_of (tick now w)))
      \<and> endTime (state (widget_of (tick now w))) = None
      \<and> sessionId (state (widget_of (tick now w))) = sessionId (state w)
      \<and> type (state (widget_of (tick now w))) = type (state w)
      \<and> requests (widget_of (tick now w)) =
          requests w @ [Post_complete (the (sessionId (state w)))]
      \<and> renders (widget_of (tick now w)) =
          renders w @
            [\<lparr>remaining = remaining_ms now (state (widget_of (tick now w))),
              showPause = False\<rparr>]
      \<and> remaining_ms now (state (widget_of (tick now w))) =
          (if isPaused (state w) \<and> truthy (pausedRemaining (state w))
           then num (pausedRemaining (state w)) else duration (state w) * 60 * 1000)
      \<and> sessionId (state (completeSession_resume now' (widget_of (tick now w)))) = None
      \<and> type (state (completeSession_resume now' (widget_of (tick now w)))) =
          (if type (state w) = Work then
             if completedSessions (state w) + 1 \<ge> sessions_until_long (settings w)
             then Long_break else Short_break
           else Work))"
  using assms
  by (cases "sessionId (state w)")
    (simp_all add: tick_def completeSession_begin_def completeSession_resume_def
      remaining_ms_def widget_defs truthy_str_def Let_def numeral_3_eq_3)

theorem expiry_tick_effects_witness:
  "num (endTime (state ((page None)\<lparr>timerInterval := True,
       state := default_state\<lparr>isRunning := True, endTime := Some 1500\<rparr>\<rparr>))) - 2000 \<le> 0
   \<and> \<not> truthy_str (sessionId (state ((page None)\<lparr>timerInterval := True,
       state := default_state\<lparr>isRunning := True, endTime := Some 1500\<rparr>\<rparr>)))
   \<and> type (state (widget_of (tick 2000 ((page None)\<lparr>timerInterval := True,
       state := default_state\<lparr>isRunning := True, endTime := Some 1500\<rparr>\<rparr>)))) = Short_break
   \<and> renders (widget_of (tick 2000 ((page None)\<lparr>timerInterval := True,
       state := default_state\<lparr>isRunning := True, endTime := Some 1500\<rparr>\<rparr>))) =
       [\<lparr>remaining = 300000, showPause = False\<rparr>,
        \<lparr>remaining = 300000, showPause = False\<rparr>,
        \<lparr>remaining = 300000, showPause = False\<rparr>]
   \<and> num (endTime (state ((page None)\<lparr>timerInterval := True,
       state := default_state\<lparr>isRunning := True, endTime := Some 1500,
                  sessionId := Some ''s1''\<rparr>\<rparr>))) - 2000 \<le> 0
   \<and> truthy_str (sessionId (state ((page None)\<lparr>timerInterval := True,
       state := default_state\<lparr>isRunning := True, endTime := Some 1500,
                  sessionId := Some ''s1''\<rparr>\<rparr>)))
   \<and> type (state (widget_of (tick 2000 ((page None)\<lparr>timerInterval := True,
       state := default_state\<lparr>isRunning := True, endTime := Some 1500,
                  sessionId := Some ''s1''\<rparr>\<rparr>)))) = Work
   \<and> renders (widget_of (tick 2000 ((page None)\<lparr>timerInterval := True,
       state := default_state\<lparr>isRunning := True, endTime := Some 1500,
                  sessionId := Some ''s1''\<rparr>\<rparr>))) =
       [\<lparr>remaining = 1500000, showPause = False\<rparr>]
   \<and> type (state (completeSession_resume 2500 (widget_of (tick 2000
       ((page None)\<lparr>timerInterval := True,
       state := default_state\<lparr>isRunning := True, endTime := Some 1500,
                  sessionId := Some ''s1''\<rparr>\<rparr>))))) = Short_break"
  using expiry_tick_effects [of
      "(page None)\<lparr>timerInterval := True,
       state := default_state\<lparr>isRunning := True, endTime := Some 1500\<rparr>\<rparr>" 2000 2500]
    expiry_tick_effects [of
      "(page None)\<lparr>timerInterval := True,
       state := default_state\<lparr>isRunning := True, endTime := Some 1500,
                  sessionId := Some ''s1''\<rparr>\<rparr>" 2000 2500]
  by (simp add: page_def default_state_def default_settings_def coercion_defs
      type_duration_def numeral_3_eq_3)

text \<open>
  The claim C5 as it was made, that the rotation of the type and the clearing of the
  session id never wait for the backend, fails when a session id is held: at 2000 ms,
  with a deadline of 1500 ms and session \<^verbatim>\<open>s1\<close>, the tick returns suspended, having
  rendered a state of type work that still holds \<^verbatim>\<open>s1\<close>.
\<close>

theorem expiry_tick_with_session_defers_rotation:
  "tick 2000 ((page None)\<lparr>timerInterval := True,
       state := default_state\<lparr>isRunning := True, endTime := Some 1500,
                  sessionId := Some ''s1''\<rparr>\<rparr>) =
     Suspended ((page None)\<lparr>timerInterval := False,
       state := default_state\<lparr>isRunning := False, endTime := None,
                  sessionId := Some ''s1''\<rparr>,
       requests := [Post_complete ''s1''],
       renders := [\<lparr>remaining = 1500000, showPause = False\<rparr>]\<rparr>)
   \<and> type (default_state\<lparr>isRunning := False, endTime := None,
                  sessionId := Some ''s1''\<rparr>) = Work"
  by (simp add: tick_def completeSession_begin_def page_def default_state_def
      default_settings_def remaining_ms_def widget_defs coercion_defs Let_def)

subsection \<open>States and counters along every sequence of events\<close>

lemma consistent_setSessionType:
  "all_consistent w \<Longrightarrow> all_consistent (setSessionType now t w)"
  by (simp add: all_consistent_def consistent_def widget_defs)

lemma consistent_updateDisplay:
  "all_consistent w \<Longrightarrow> all_consistent (updateDisplay now w)"
  by (simp add: all_consistent_def updateDisplay_def)

lemma consistent_send: "all_consistent w \<Longrightarrow> all_consistent (send r w)"
  by (simp add: all_consistent_def send_def)

lemma consistent_toggleTimer_begin:
  "all_consistent w \<Longrightarrow> all_consistent (widget_of (toggleTimer_begin now w))"
  by (simp add: all_consistent_def consistent_def toggleTimer_begin_def toggleTimer_finish_def
      widget_defs Let_def)

lemma consistent_toggleTimer_resume:
  "all_consistent w \<Longrightarrow> all_consistent (toggleTimer_resume now r w)"
  by (cases r)
    (simp_all add: all_consistent_def consistent_def toggleTimer_resume_def
      toggleTimer_finish_def widget_defs)

lemma consistent_completeSession_resume:
  "all_consistent w \<Longrightarrow> all_consistent (completeSession_resume now w)"
  by (simp add: all_consistent_def consistent_def completeSession_resume_def widget_defs
      Let_def)

lemma consistent_completeSession_begin:
  "all_consistent w \<Longrightarrow> all_consistent (widget_of (completeSession_begin now w))"
proof -
  assume a: "all_consistent w"
  let ?w1 = "w\<lparr>state := (state w)\<lparr>isRunning := False, endTime := None\<rparr>\<rparr>"
  from a have w1: "all_consistent ?w1"
    by (simp add: all_consistent_def consistent_def)
  show ?thesis
    using consistent_completeSession_resume [OF w1, of now] consistent_send [OF w1]
    by (cases "sessionId (state w)") (simp_all add: completeSession_begin_def Let_def)
qed

lemma consistent_clearInterval: "all_consistent w \<Longrightarrow> all_consistent (clearInterval w)"
  by (simp add: all_consistent_def clearInterval_def)

lemma consistent_tick: "all_consistent w \<Longrightarrow> all_consistent (widget_of (tick now w))"
proof -
  assume a: "all_consistent w"
  have c: "all_consistent (widget_of (completeSession_begin now (clearInterval w)))"
    by (rule consistent_completeSession_begin [OF consistent_clearInterval [OF a]])
  show ?thesis
    using a c consistent_updateDisplay
    by (cases "completeSession_begin now (clearInterval w)")
      (simp_all add: tick_def Let_def)
qed

lemma consistent_resetTimer_resume:
  "all_consistent w \<Longrightarrow> all_consistent (resetTimer_resume now w)"
  by (simp add: all_consistent_def consistent_def resetTimer_resume_def widget_defs)

lemma consistent_skipSession_resume:
  "all_consistent w \<Longrightarrow> all_consistent (skipSession_resume now w)"
  by (simp add: all_consistent_def consistent_def skipSession_resume_def widget_defs Let_def)

lemma consistent_cancel_begin:
  "all_consistent w \<Longrightarrow> cancel_begin w = Some w' \<Longrightarrow> all_consistent w'"
  by (auto simp: cancel_begin_def all_consistent_def send_def split: option.splits if_splits)

lemma consistent_resetTimer_begin:
  "all_consistent w \<Longrightarrow> all_consistent (widget_of (resetTimer_begin now w))"
  using consistent_cancel_begin [of w] consistent_resetTimer_resume [of w now]
  by (cases "cancel_begin w") (simp_all add: resetTimer_begin_def)

lemma consistent_skipSession_begin:
  "all_consistent w \<Longrightarrow> all_consistent (widget_of (skipSession_begin now w))"
  using consistent_cancel_begin [of w] consistent_skipSession_resume [of w now]
  by (cases "cancel_begin w") (simp_all add: skipSession_begin_def)

lemma consistent_adjustDuration:
  "all_consistent w \<Longrightarrow> all_consistent (adjustDuration now ty d w)"
  by (simp add: all_consistent_def consistent_def adjustDuration_def widget_defs Let_def)

lemma consistent_init_begin:
  "all_consistent w \<Longrightarrow> all_consistent (init_begin now (page (storage w)))"
  by (cases "storage w")
    (simp_all add: all_consistent_def consistent_def init_begin_def loadState_def
      fetchSettings_begin_def page_def default_state_def widget_defs Let_def)

lemma consistent_init_resume:
  "all_consistent w \<Longrightarrow> all_consistent (init_resume now r w)"
  by (cases r)
    (simp_all add: all_consistent_def consistent_def init_resume_def
      fetchSettings_resume_def widget_defs Let_def)

lemma consistent_step: "all_consistent w \<Longrightarrow> all_consistent (step e w)"
proof (cases e)
  case (Select_class c)
  assume "all_consistent w"
  then show ?thesis
    by (simp add: Select_class all_consistent_def consistent_def saveState_def)
qed (simp_all add: consistent_setSessionType consistent_toggleTimer_begin
    consistent_toggleTimer_resume consistent_completeSession_resume consistent_tick
    consistent_resetTimer_resume consistent_skipSession_resume consistent_resetTimer_begin
    consistent_skipSession_begin consistent_adjustDuration consistent_init_begin
    consistent_init_resume)

lemma consistent_run: "all_consistent w \<Longrightarrow> all_consistent (run w es)"
  by (induction es arbitrary: w) (simp_all add: consistent_step)

lemma consistent_page: "all_consistent (page None)"
  by (simp add: all_consistent_def consistent_def page_def default_state_def)

text \<open>
  C6. After every sequence of events, the state has a deadline exactly when it is
  running, and it has a remainder whenever it is paused.
\<close>

theorem deadline_iff_running:
  "(endTime (state (run (page None) es)) \<noteq> None \<longleftrightarrow> isRunning (state (run (page None) es)))
   \<and> (isPaused (state (run (page None) es)) \<longrightarrow>
        pausedRemaining (state (run (page None) es)) \<noteq> None)"
  using consistent_run [OF consistent_page, of es]
  by (simp add: all_consistent_def consistent_def)

theorem deadline_iff_running_witness:
  "isPaused (state (run (page None)
      [Page_load 1000, Init_resumed 1100 Failed, Toggle 2000, Toggle_resumed 2100 Failed,
       Toggle 3000]))
   \<and> pausedRemaining (state (run (page None)
      [Page_load 1000, Init_resumed 1100 Failed, Toggle 2000, Toggle_resumed 2100 Failed,
       Toggle 3000])) \<noteq> None"
  using deadline_iff_running [of
      "[Page_load 1000, Init_resumed 1100 Failed, Toggle 2000, Toggle_resumed 2100 Failed,
        Toggle 3000]"]
  by (simp add: eval_defs)

text \<open>
  The converse for the remainder, which C6 also claimed, fails: \<^verbatim>\<open>setSessionType\<close>
  leaves \<^verbatim>\<open>pausedRemaining\<close> as it is. After start, pause and the choice of another
  session type the state is idle and still has the remainder of the pause.
\<close>

theorem paused_remainder_outlives_pause:
  "pausedRemaining (state (run (page None)
      [Page_load 1000, Init_resumed 1100 Failed, Toggle 2000, Toggle_resumed 2100 Failed,
       Toggle 3000, Select_type 4000 Short_break])) = Some 1499000
   \<and> isPaused (state (run (page None)
      [Page_load 1000, Init_resumed 1100 Failed, Toggle 2000, Toggle_resumed 2100 Failed,
       Toggle 3000, Select_type 4000 Short_break])) = False"
  by (simp add: eval_defs)

lemma cycle_setSessionType: "all_in_cycle w \<Longrightarrow> all_in_cycle (setSessionType now t w)"
  by (simp add: all_in_cycle_def in_cycle_def widget_defs)

lemma cycle_updateDisplay: "all_in_cycle w \<Longrightarrow> all_in_cycle (updateDisplay now w)"
  by (simp add: all_in_cycle_def updateDisplay_def)

lemma cycle_send: "all_in_cycle w \<Longrightarrow> all_in_cycle (send r w)"
  by (simp add: all_in_cycle_def send_def)

lemma cycle_clearInterval: "all_in_cycle w \<Longrightarrow> all_in_cycle (clearInterval w)"
  by (simp add: all_in_cycle_def clearInterval_def)

lemma cycle_toggleTimer_begin:
  "all_in_cycle w \<Longrightarrow> all_in_cycle (widget_of (toggleTimer_begin now w))"
  by (simp add: all_in_cycle_def in_cycle_def toggleTimer_begin_def toggleTimer_finish_def
      widget_defs Let_def)

lemma cycle_toggleTimer_resume:
  "all_in_cycle w \<Longrightarrow> all_in_cycle (toggleTimer_resume now r w)"
  by (cases r)
    (simp_all add: all_in_cycle_def in_cycle_def toggleTimer_resume_def
      toggleTimer_finish_def widget_defs)

lemma cycle_completeSession_resume:
  "all_in_cycle w \<Longrightarrow> all_in_cycle (completeSession_resume now w)"
  by (simp add: all_in_cycle_def in_cycle_def completeSession_resume_def widget_defs Let_def)

lemma cycle_completeSession_begin:
  "all_in_cycle w \<Longrightarrow> all_in_cycle (widget_of (completeSession_begin now w))"
proof -
  assume a: "all_in_cycle w"
  let ?w1 = "w\<lparr>state := (state w)\<lparr>isRunning := False, endTime := None\<rparr>\<rparr>"
  from a have w1: "all_in_cycle ?w1"
    by (simp add: all_in_cycle_def in_cycle_def)
  show ?thesis
    using cycle_completeSession_resume [OF w1, of now] cycle_send [OF w1]
    by (cases "sessionId (state w)") (simp_all add: completeSession_begin_def Let_def)
qed

lemma cycle_tick: "all_in_cycle w \<Longrightarrow> all_in_cycle (widget_of (tick now w))"
proof -
  assume a: "all_in_cycle w"
  have c: "all_in_cycle (widget_of (completeSession_begin now (clearInterval w)))"
    by (rule cycle_completeSession_begin [OF cycle_clearInterval [OF a]])
  show ?thesis
    using a c cycle_updateDisplay
    by (cases "completeSession_begin now (clearInterval w)")
      (simp_all add: tick_def Let_def)
qed

lemma cycle_resetTimer_resume:
  "all_in_cycle w \<Longrightarrow> all_in_cycle (resetTimer_resume now w)"
  by (simp add: all_in_cycle_def in_cycle_def resetTimer_resume_def widget_defs)

lemma cycle_skipSession_resume:
  "all_in_cycle w \<Longrightarrow> all_in_cycle (skipSession_resume now w)"
  by (simp add: all_in_cycle_def in_cycle_def skipSession_resume_def widget_defs Let_def)

lemma cycle_cancel_begin:
  "all_in_cycle w \<Longrightarrow> cancel_begin w = Some w' \<Longrightarrow> all_in_cycle w'"
  by (auto simp: cancel_begin_def all_in_cycle_def send_def split: option.splits if_splits)

lemma cycle_resetTimer_begin:
  "all_in_cycle w \<Longrightarrow> all_in_cycle (widget_of (resetTimer_begin now w))"
  using cycle_cancel_begin [of w] cycle_resetTimer_resume [of w now]
  by (cases "cancel_begin w") (simp_all add: resetTimer_begin_def)

lemma cycle_skipSession_begin:
  "all_in_cycle w \<Longrightarrow> all_in_cycle (widget_of (skipSession_begin now w))"
  using cycle_cancel_begin [of w] cycle_skipSession_resume [of w now]
  by (cases "cancel_begin w") (simp_all add: skipSession_begin_def)

lemma cycle_adjustDuration:
  "all_in_cycle w \<Longrightarrow> all_in_cycle (adjustDuration now ty d w)"
  by (simp add: all_in_cycle_def in_cycle_def adjustDuration_def widget_defs Let_def)

lemma cycle_init_begin:
  "all_in_cycle w \<Longrightarrow> all_in_cycle (init_begin now (page (storage w)))"
  by (cases "storage w")
    (simp_all add: all_in_cycle_def in_cycle_def init_begin_def loadState_def
      fetchSettings_begin_def page_def default_state_def default_settings_def
      widget_defs Let_def)

lemma cycle_init_resume:
  "all_in_cycle w \<Longrightarrow> within_cycle (Init_resumed now r) \<Longrightarrow>
   all_in_cycle (init_resume now r w)"
proof (cases r)
  case Failed
  assume "all_in_cycle w"
  then show ?thesis
    by (simp add: Failed all_in_cycle_def in_cycle_def init_resume_def
        fetchSettings_resume_def widget_defs Let_def)
next
  case (Reply d)
  assume a: "all_in_cycle w" and b: "within_cycle (Init_resumed now r)"
  show ?thesis
  proof (cases "success d")
    case True
    with b Reply have "0 \<le> or_default (today_sessions d) 0"
      and "or_default (today_sessions d) 0
            < or_default (pomodoro_sessions_until_long (data_settings d)) 4"
      and "or_default (pomodoro_sessions_until_long (data_settings d)) 4 \<le> 4"
      by simp_all
    with a True show ?thesis
      by (simp add: Reply all_in_cycle_def in_cycle_def init_resume_def
          fetchSettings_resume_def widget_defs Let_def)
  next
    case False
    with a show ?thesis
      by (simp add: Reply all_in_cycle_def in_cycle_def init_resume_def
          fetchSettings_resume_def widget_defs Let_def)
  qed
qed

lemma cycle_step: "all_in_cycle w \<Longrightarrow> within_cycle e \<Longrightarrow> all_in_cycle (step e w)"
proof (cases e)
  case (Select_class c)
  assume "all_in_cycle w"
  then show ?thesis
    by (simp add: Select_class all_in_cycle_def in_cycle_def saveState_def)
next
  case (Init_resumed now r)
  assume "all_in_cycle w" "within_cycle e"
  then show ?thesis
    using cycle_init_resume [of w now r] by (simp add: Init_resumed)
qed (simp_all add: cycle_setSessionType cycle_toggleTimer_begin
    cycle_toggleTimer_resume cycle_completeSession_resume cycle_tick
    cycle_resetTimer_resume cycle_skipSession_resume cycle_resetTimer_begin
    cycle_skipSession_begin cycle_adjustDuration cycle_init_begin)

lemma cycle_run:
  "all_in_cycle w \<Longrightarrow> list_all within_cycle es \<Longrightarrow> all_in_cycle (run w es)"
  by (induction es arbitrary: w) (simp_all add: cycle_step)

lemma cycle_page: "all_in_cycle (page None)"
  by (simp add: all_in_cycle_def in_cycle_def page_def default_state_def default_settings_def)

text \<open>
  C7. After every sequence of events in which each successful reply of
  \<^verbatim>\<open>/pomodoro/active\<close> is within the cycle, the counter is at least 0 and below
  \<^verbatim>\<open>sessions_until_long\<close>; this includes the states reached by such replies. From any
  state, when the increment of \<^verbatim>\<open>completeSession\<close> reaches \<^verbatim>\<open>sessions_until_long\<close>, the
  same call sets the counter to 0 and selects the long break; and the completion of a
  work session with a counter that is not negative and a positive
  \<^verbatim>\<open>sessions_until_long\<close> leaves the counter in that range.
\<close>

theorem counter_below_sessions_until_long:
  assumes "list_all within_cycle es"
  shows "0 \<le> completedSessions (state (run (page None) es))
    \<and> completedSessions (state (run (page None) es))
        < sessions_until_long (settings (run (page None) es))
    \<and> (type (state w) = Work
        \<and> completedSessions (state w) + 1 \<ge> sessions_until_long (settings w) \<longrightarrow>
          completedSessions (state (completeSession now now' w)) = 0
          \<and> type (state (completeSession now now' w)) = Long_break)
    \<and> (type (state w) = Work \<and> 0 \<le> completedSessions (state w)
        \<and> 0 < sessions_until_long (settings w) \<longrightarrow>
          0 \<le> completedSessions (state (completeSession now now' w))
          \<and> completedSessions (state (completeSession now now' w))
              < sessions_until_long (settings (completeSession now now' w)))"
proof -
  have "all_in_cycle (run (page None) es)"
    by (rule cycle_run [OF cycle_page assms])
  then have "0 \<le> completedSessions (state (run (page None) es))
    \<and> completedSessions (state (run (page None) es))
        < sessions_until_long (settings (run (page None) es))"
    by (simp add: all_in_cycle_def in_cycle_def)
  moreover have "type (state w) = Work
        \<and> completedSessions (state w) + 1 \<ge> sessions_until_long (settings w) \<longrightarrow>
          completedSessions (state (completeSession now now' w)) = 0
          \<and> type (state (completeSession now now' w)) = Long_break"
    by (cases "sessionId (state w)")
      (simp_all add: completeSession_def completeSession_begin_def
        completeSession_resume_def widget_defs Let_def)
  moreover have "type (state w) = Work \<and> 0 \<le> completedSessions (state w)
        \<and> 0 < sessions_until_long (settings w) \<longrightarrow>
          0 \<le> completedSessions (state (completeSession now now' w))
          \<and> completedSessions (state (completeSession now now' w))
              < sessions_until_long (settings (completeSession now now' w))"
    by (cases "sessionId (state w)")
      (simp_all add: completeSession_def completeSession_begin_def
        completeSession_resume_def widget_defs Let_def)
  ultimately show ?thesis by simp
qed

theorem counter_below_sessions_until_long_witness:
  "list_all within_cycle
        [Page_load 1000, Init_resumed 1100 (Reply \<lparr>success = True,
         data_settings = \<lparr>pomodoro_work_duration = Some 25,
           pomodoro_short_break = Some 5, pomodoro_long_break = Some 15,
           pomodoro_sessions_until_long = Some 3\<rparr>,
         today_sessions = Some 2\<rparr>),
         Toggle 2000, Toggle_resumed 2100 Failed, Tick 1502000]
   \<and> completedSessions (state (run (page None)
        [Page_load 1000, Init_resumed 1100 (Reply \<lparr>success = True,
         data_settings = \<lparr>pomodoro_work_duration = Some 25,
           pomodoro_short_break = Some 5, pomodoro_long_break = Some 15,
           pomodoro_sessions_until_long = Some 3\<rparr>,
         today_sessions = Some 2\<rparr>),
         Toggle 2000, Toggle_resumed 2100 Failed, Tick 1502000])) = 0
   \<and> sessions_until_long (settings (run (page None)
        [Page_load 1000, Init_resumed 1100 (Reply \<lparr>success = True,
         data_settings = \<lparr>pomodoro_work_duration = Some 25,
           pomodoro_short_break = Some 5, pomodoro_long_break = Some 15,
           pomodoro_sessions_until_long = Some 3\<rparr>,
         today_sessions = Some 2\<rparr>),
         Toggle 2000, Toggle_resumed 2100 Failed, Tick 1502000])) = 3
   \<and> type (state (run (page None)
        [Page_load 1000, Init_resumed 1100 (Reply \<lparr>success = True,
         data_settings = \<lparr>pomodoro_work_duration = Some 25,
           pomodoro_short_break = Some 5, pomodoro_long_break = Some 15,
           pomodoro_sessions_until_long = Some 3\<rparr>,
         today_sessions = Some 2\<rparr>),
         Toggle 2000, Toggle_resumed 2100 Failed, Tick 1502000])) = Long_break
   \<and> type (state ((page None)\<lparr>state := default_state\<lparr>completedSessions := 3\<rparr>\<rparr>)) = Work
   \<and> completedSessions (state ((page None)\<lparr>state := default_state\<lparr>completedSessions := 3\<rparr>\<rparr>))
        + 1 \<ge> sessions_until_long
          (settings ((page None)\<lparr>state := default_state\<lparr>completedSessions := 3\<rparr>\<rparr>))
   \<and> completedSessions (state (completeSession 0 0
        ((page None)\<lparr>state := default_state\<lparr>completedSessions := 3\<rparr>\<rparr>))) = 0
   \<and> type (state (completeSession 0 0
        ((page None)\<lparr>state := default_state\<lparr>completedSessions := 3\<rparr>\<rparr>))) = Long_break
   \<and> 0 \<le> completedSessions (state ((page None)\<lparr>state := default_state\<lparr>completedSessions := 3\<rparr>\<rparr>))
   \<and> 0 < sessions_until_long
          (settings ((page None)\<lparr>state := default_state\<lparr>completedSessions := 3\<rparr>\<rparr>))
   \<and> completedSessions (state (completeSession 0 0
        ((page None)\<lparr>state := default_state\<lparr>completedSessions := 3\<rparr>\<rparr>)))
        < sessions_until_long (settings (completeSession 0 0
            ((page None)\<lparr>state := default_state\<lparr>completedSessions := 3\<rparr>\<rparr>)))"
  using counter_below_sessions_until_long [of
      "[Page_load 1000, Init_resumed 1100 (Reply \<lparr>success = True,
         data_settings = \<lparr>pomodoro_work_duration = Some 25,
           pomodoro_short_break = Some 5, pomodoro_long_break = Some 15,
           pomodoro_sessions_until_long = Some 3\<rparr>,
         today_sessions = Some 2\<rparr>),
         Toggle 2000, Toggle_resumed 2100 Failed, Tick 1502000]"
      "(page None)\<lparr>state := default_state\<lparr>completedSessions := 3\<rparr>\<rparr>" 0 0]
  by (simp add: eval_defs tick_def completeSession_begin_def completeSession_resume_def)

text \<open>
  The bound of C7 as it was claimed, for every reachable state, fails in two ways.
  \<^verbatim>\<open>fetchSettings\<close> assigns the server's \<^verbatim>\<open>today_sessions\<close> to the counter: with 7 sessions
  today and \<^verbatim>\<open>sessions_until_long\<close> 4 the counter is 7. And a page load compares the
  stored counter with the initial \<^verbatim>\<open>sessions_until_long\<close> 4: after a reply with 5
  sessions today and \<^verbatim>\<open>sessions_until_long\<close> 8, a saved state and a new page load, the
  counter is 5 and \<^verbatim>\<open>sessions_until_long\<close> is 4.
\<close>

theorem bootstrap_counter_exceeds_cycle:
  "completedSessions (state (run (page None)
      [Page_load 1000,
       Init_resumed 1100 (Reply \<lparr>success = True,
         data_settings = \<lparr>pomodoro_work_duration = Some 25,
           pomodoro_short_break = Some 5, pomodoro_long_break = Some 15,
           pomodoro_sessions_until_long = Some 4\<rparr>,
         today_sessions = Some 7\<rparr>)])) = 7
   \<and> sessions_until_long (settings (run (page None)
      [Page_load 1000,
       Init_resumed 1100 (Reply \<lparr>success = True,
         data_settings = \<lparr>pomodoro_work_duration = Some 25,
           pomodoro_short_break = Some 5, pomodoro_long_break = Some 15,
           pomodoro_sessions_until_long = Some 4\<rparr>,
         today_sessions = Some 7\<rparr>)])) = 4
   \<and> completedSessions (state (run (page None)
      [Page_load 1000,
       Init_resumed 1100 (Reply \<lparr>success = True,
         data_settings = \<lparr>pomodoro_work_duration = Some 25,
           pomodoro_short_break = Some 5, pomodoro_long_break = Some 15,
           pomodoro_sessions_until_long = Some 8\<rparr>,
         today_sessions = Some 5\<rparr>),
       Select_class None, Page_load 5000])) = 5
   \<and> sessions_until_long (settings (run (page None)
      [Page_load 1000,
       Init_resumed 1100 (Reply \<lparr>success = True,
         data_settings = \<lparr>pomodoro_work_duration = Some 25,
           pomodoro_short_break = Some 5, pomodoro_long_break = Some 15,
           pomodoro_sessions_until_long = Some 8\<rparr>,
         today_sessions = Some 5\<rparr>),
       Select_class None, Page_load 5000])) = 4"
  by (simp add: eval_defs)

subsection \<open>The reply of \<^verbatim>\<open>/pomodoro/active\<close>\<close>

text \<open>
  C8. A successful reply sets the four settings from the reply (with the defaults 25, 5,
  15 and 4 for a missing or zero field) and sets the counter to the reply's
  \<^verbatim>\<open>today_sessions\<close> (0 when missing), whatever the counter was. A reply without
  \<^verbatim>\<open>success\<close>, or a failed request, changes nothing.
\<close>

theorem bootstrap_sets_counter:
  "(success d \<longrightarrow>
      settings (fetchSettings_resume (Reply d) w) =
        \<lparr>work = or_default (pomodoro_work_duration (data_settings d)) 25,
         short_break = or_default (pomodoro_short_break (data_settings d)) 5,
         long_break = or_default (pomodoro_long_break (data_settings d)) 15,
         sessions_until_long =
           or_default (pomodoro_sessions_until_long (data_settings d)) 4\<rparr>
      \<and> completedSessions (state (fetchSettings_resume (Reply d) w)) =
          or_default (today_sessions d) 0)
   \<and> (\<not> success d \<longrightarrow> fetchSettings_resume (Reply d) w = w)
   \<and> fetchSettings_resume Failed w = w"
  by (simp add: fetchSettings_resume_def Let_def)

theorem bootstrap_sets_counter_witness:
  "success \<lparr>success = True,
       data_settings = \<lparr>pomodoro_work_duration = Some 30,
         pomodoro_short_break = None, pomodoro_long_break = Some 0,
         pomodoro_sessions_until_long = Some 3\<rparr>,
       today_sessions = Some 5\<rparr>
   \<and> settings (fetchSettings_resume (Reply \<lparr>success = True,
       data_settings = \<lparr>pomodoro_work_duration = Some 30,
         pomodoro_short_break = None, pomodoro_long_break = Some 0,
         pomodoro_sessions_until_long = Some 3\<rparr>,
       today_sessions = Some 5\<rparr>) (page None)) =
       \<lparr>work = 30, short_break = 5, long_break = 15, sessions_until_long = 3\<rparr>
   \<and> completedSessions (state (fetchSettings_resume (Reply \<lparr>success = True,
       data_settings = \<lparr>pomodoro_work_duration = Some 30,
         pomodoro_short_break = None, pomodoro_long_break = Some 0,
         pomodoro_sessions_until_long = Some 3\<rparr>,
       today_sessions = Some 5\<rparr>) (page None))) = 5
   \<and> \<not> success \<lparr>success = False,
       data_settings = \<lparr>pomodoro_work_duration = Some 30,
         pomodoro_short_break = None, pomodoro_long_break = Some 0,
         pomodoro_sessions_until_long = Some 3\<rparr>,
       today_sessions = Some 5\<rparr>
   \<and> fetchSettings_resume (Reply \<lparr>success = False,
       data_settings = \<lparr>pomodoro_work_duration = Some 30,
         pomodoro_short_break = None, pomodoro_long_break = Some 0,
         pomodoro_sessions_until_long = Some 3\<rparr>,
       today_sessions = Some 5\<rparr>) (page None) = page None"
  using bootstrap_sets_counter [of "\<lparr>success = True,
       data_settings = \<lparr>pomodoro_work_duration = Some 30,
         pomodoro_short_break = None, pomodoro_long_break = Some 0,
         pomodoro_sessions_until_long = Some 3\<rparr>,
       today_sessions = Some 5\<rparr>" "page None"]
    bootstrap_sets_counter [of "\<lparr>success = False,
       data_settings = \<lparr>pomodoro_work_duration = Some 30,
         pomodoro_short_break = None, pomodoro_long_break = Some 0,
         pomodoro_sessions_until_long = Some 3\<rparr>,
       today_sessions = Some 5\<rparr>" "page None"]
  by (simp add: coercion_defs)

text \<open>
  The claim C8 as it was made, that a counter already present is left unchanged, fails:
  a stored counter of 2 is loaded by \<^verbatim>\<open>init\<close> and replaced by the reply's 5.
\<close>

theorem bootstrap_overwrites_counter:
  "completedSessions (state (init 1000 2000
      (Reply \<lparr>success = True,
              data_settings = \<lparr>pomodoro_work_duration = Some 25,
                pomodoro_short_break = Some 5, pomodoro_long_break = Some 15,
                pomodoro_sessions_until_long = Some 4\<rparr>,
              today_sessions = Some 5\<rparr>)
      (page (Some (default_state\<lparr>completedSessions := 2\<rparr>))))) = 5
   \<and> completedSessions (state (init_begin 1000
      (page (Some (default_state\<lparr>completedSessions := 2\<rparr>))))) = 2"
  by (simp add: init_def init_begin_def init_resume_def loadState_def
      fetchSettings_begin_def fetchSettings_resume_def page_def default_state_def
      default_settings_def widget_defs coercion_defs Let_def)

subsection \<open>Adjusting durations\<close>

lemma settings_adjustDuration:
  "settings (adjustDuration now ty d w) =
     (if ty = Dur_work then (settings w)\<lparr>work := max 1 (min 60 (work (settings w) + d))\<rparr>
      else if ty = Dur_short
        then (settings w)\<lparr>short_break := max 1 (min 30 (short_break (settings w) + d))\<rparr>
      else (settings w)\<lparr>long_break := max 1 (min 30 (long_break (settings w) + d))\<rparr>)"
  by (simp add: adjustDuration_def widget_defs Let_def)

lemma adjusted_in_range:
  "1 \<le> adjusted ty (settings (adjustDuration now ty d w))
   \<and> adjusted ty (settings (adjustDuration now ty d w)) \<le> upper ty"
  by (cases ty) (simp_all add: settings_adjustDuration adjusted_def upper_def)

lemma adjusted_stays_in_range:
  "1 \<le> adjusted ty (settings w) \<and> adjusted ty (settings w) \<le> upper ty \<Longrightarrow>
   1 \<le> adjusted ty (settings (adjustDuration now ty' d w))
   \<and> adjusted ty (settings (adjustDuration now ty' d w)) \<le> upper ty"
  by (cases ty; cases ty') (simp_all add: settings_adjustDuration adjusted_def upper_def)

lemma adjustments_in_range:
  "(1 \<le> adjusted ty (settings w) \<and> adjusted ty (settings w) \<le> upper ty)
     \<or> (\<exists>now d. (now, ty, d) \<in> set cs) \<Longrightarrow>
   1 \<le> adjusted ty (settings (adjustments cs w))
   \<and> adjusted ty (settings (adjustments cs w)) \<le> upper ty"
proof (induction cs arbitrary: w)
  case Nil
  then show ?case by simp
next
  case (Cons c cs)
  obtain now ty' d where c: "c = (now, ty', d)" by (cases c) auto
  have "1 \<le> adjusted ty (settings (adjustDuration now ty' d w))
     \<and> adjusted ty (settings (adjustDuration now ty' d w)) \<le> upper ty
     \<or> (\<exists>now d. (now, ty, d) \<in> set cs)"
  proof (cases "ty' = ty")
    case True
    then show ?thesis using adjusted_in_range [of ty now d w] by simp
  next
    case False
    then show ?thesis using Cons.prems adjusted_stays_in_range [of ty w now ty' d]
      by (auto simp: c)
  qed
  from Cons.IH [OF this] show ?case by (simp add: c)
qed

lemma work_up_from_59:
  "0 < n \<Longrightarrow> work (settings w) = 59 \<or> work (settings w) = 60 \<Longrightarrow>
   work (settings (adjustments (replicate n (now, Dur_work, 1)) w)) = 60"
proof (induction n arbitrary: w)
  case 0
  then show ?case by simp
next
  case (Suc n)
  have step: "work (settings (adjustDuration now Dur_work 1 w)) = 60"
    using Suc.prems(2) by (auto simp: settings_adjustDuration)
  show ?case
  proof (cases n)
    case 0
    then show ?thesis using step by simp
  next
    case (Suc m)
    then have "0 < n" by simp
    from Suc.IH [OF this, of "adjustDuration now Dur_work 1 w"] step
    show ?thesis by simp
  qed
qed

text \<open>
  C9. After any sequence of \<^verbatim>\<open>adjustDuration\<close> calls, a setting that one of the calls
  adjusted lies between 1 and its upper bound, 60 for work and 30 for the breaks,
  whatever the directions were. From 59, any positive number of \<^verbatim>\<open>+1\<close> steps on work
  gives 60; from 1, a \<^verbatim>\<open>-1\<close> step gives 1. \<^verbatim>\<open>adjustDuration\<close> has no error result.
\<close>

theorem adjustDuration_clamps:
  "((now, ty, d) \<in> set cs \<longrightarrow>
      1 \<le> adjusted ty (settings (adjustments cs w))
      \<and> adjusted ty (settings (adjustments cs w)) \<le> upper ty)
   \<and> (work (settings w) = 59 \<and> 0 < n \<longrightarrow>
      work (settings (adjustments (replicate n (now, Dur_work, 1)) w)) = 60)
   \<and> (work (settings w) = 1 \<longrightarrow>
      work (settings (adjustDuration now Dur_work (- 1) w)) = 1)"
proof (intro conjI impI)
  assume "(now, ty, d) \<in> set cs"
  then have "\<exists>now d. (now, ty, d) \<in> set cs" by blast
  then show "1 \<le> adjusted ty (settings (adjustments cs w))"
    and "adjusted ty (settings (adjustments cs w)) \<le> upper ty"
    using adjustments_in_range [of ty w cs] by simp_all
next
  assume "work (settings w) = 59 \<and> 0 < n"
  then show "work (settings (adjustments (replicate n (now, Dur_work, 1)) w)) = 60"
    using work_up_from_59 [of n w now] by simp
next
  assume "work (settings w) = 1"
  then show "work (settings (adjustDuration now Dur_work (- 1) w)) = 1"
    by (simp add: settings_adjustDuration)
qed

theorem adjustDuration_clamps_witness:
  "(0, Dur_work, 1) \<in> set [(0, Dur_work, 1), (0, Dur_work, 1)]
   \<and> work (settings (page None\<lparr>settings := default_settings\<lparr>work := 59\<rparr>\<rparr>)) = 59
   \<and> (0::nat) < 2
   \<and> work (settings (adjustments (replicate 2 (0, Dur_work, 1))
        (page None\<lparr>settings := default_settings\<lparr>work := 59\<rparr>\<rparr>))) = 60
   \<and> adjusted Dur_work (settings (adjustments [(0, Dur_work, 1), (0, Dur_work, 1)]
        (page None\<lparr>settings := default_settings\<lparr>work := 59\<rparr>\<rparr>))) \<le> upper Dur_work
   \<and> work (settings (page None\<lparr>settings := default_settings\<lparr>work := 1\<rparr>\<rparr>)) = 1
   \<and> work (settings (adjustDuration 0 Dur_work (- 1)
        (page None\<lparr>settings := default_settings\<lparr>work := 1\<rparr>\<rparr>))) = 1"
  using adjustDuration_clamps [of 0 Dur_work 1 "[(0, Dur_work, 1), (0, Dur_work, 1)]"
      "page None\<lparr>settings := default_settings\<lparr>work := 59\<rparr>\<rparr>" 2]
    adjustDuration_clamps [of 0 Dur_work 1 "[]"
      "page None\<lparr>settings := default_settings\<lparr>work := 1\<rparr>\<rparr>" 0]
  by (simp add: page_def default_settings_def)

subsection \<open>Pausing\<close>

text \<open>
  C10. \<^verbatim>\<open>toggleTimer\<close> on a running state runs to its end without an \<^verbatim>\<open>await\<close>. It sets
  \<^verbatim>\<open>pausedRemaining\<close> to the larger of 0 and \<^verbatim>\<open>endTime - now\<close>, clears \<^verbatim>\<open>endTime\<close>, sets
  \<^verbatim>\<open>isPaused\<close> and clears \<^verbatim>\<open>isRunning\<close>; the session id, session type, duration, class
  and counter are as before, no request is sent and the settings are unchanged.
\<close>

theorem toggle_running_pauses:
  assumes "isRunning (state w)"
  shows "toggleTimer_begin now w = Finished (toggleTimer now now' r w)
    \<and> state (toggleTimer now now' r w) =
        (state w)\<lparr>isPaused := True, isRunning := False,
          pausedRemaining := Some (max 0 (num (endTime (state w)) - now)),
          endTime := None\<rparr>
    \<and> requests (toggleTimer now now' r w) = requests w
    \<and> settings (toggleTimer now now' r w) = settings w"
  using assms
  by (simp add: toggleTimer_def toggleTimer_begin_def toggleTimer_finish_def widget_defs Let_def)

theorem toggle_running_pauses_witness:
  "isRunning (state ((page None)\<lparr>timerInterval := True,
       state := default_state\<lparr>isRunning := True, endTime := Some 5000,
                  sessionId := Some ''s1''\<rparr>\<rparr>))
   \<and> state (toggleTimer 2000 2500 Failed ((page None)\<lparr>timerInterval := True,
       state := default_state\<lparr>isRunning := True, endTime := Some 5000,
                  sessionId := Some ''s1''\<rparr>\<rparr>)) =
       default_state\<lparr>isPaused := True, pausedRemaining := Some 3000,
         sessionId := Some ''s1''\<rparr>
   \<and> requests (toggleTimer 2000 2500 Failed ((page None)\<lparr>timerInterval := True,
       state := default_state\<lparr>isRunning := True, endTime := Some 5000,
                  sessionId := Some ''s1''\<rparr>\<rparr>)) = []"
  using toggle_running_pauses [of
      "(page None)\<lparr>timerInterval := True,
         state := default_state\<lparr>isRunning := True, endTime := Some 5000,
                  sessionId := Some ''s1''\<rparr>\<rparr>" 2000 2500 Failed]
  by (simp add: page_def default_state_def num_def)

end
